theory Spec2Isabelle
  imports Main
begin

section \<open>Data model\<close>

text \<open>
  The backend keeps one document per room code in the collection \<open>game\<close> and exposes five
  operations on it: join, fetch, move, reset-round and reset-scores (\<open>main.py\<close>). The
  document layout is the pydantic model \<open>Game\<close> of \<open>schemas.py\<close>.

  A cell of the board and the field \<open>winner\<close> have the Python type
  \<open>Optional[Literal['X', 'O']]\<close>: the two literals are the constructors of \<open>mark\<close>,
  Python's \<open>None\<close> is \<open>None\<close>. A value of this type is truthy exactly when it is not
  \<open>None\<close>, since both literals are non-empty strings.
\<close>

datatype mark = MarkX | MarkO

text \<open>
  The errors a request can end with. The first nine are the \<open>HTTPException\<close>s raised by
  \<open>main.py\<close>, named after their \<open>detail\<close> texts; \<open>IndexError\<close> is what Python raises
  when a list is read beyond its end, and \<open>ValidationError\<close> what the constructor of
  \<open>Game\<close> raises when a field constraint fails.
\<close>

datatype error =
    BadGameId        \<comment> \<open>400, game\_id must be a 4-digit code\<close>
  | GameFull         \<comment> \<open>409, Game already has two players\<close>
  | GameNotFound     \<comment> \<open>404, Game not found\<close>
  | InvalidRole      \<comment> \<open>400, Invalid role\<close>
  | NotAuthorized    \<comment> \<open>403, Not authorized as X / Not authorized as O\<close>
  | RoundFinished    \<comment> \<open>409, Round already finished\<close>
  | NotYourTurn      \<comment> \<open>409, Not your turn\<close>
  | InvalidIndex     \<comment> \<open>400, Invalid index\<close>
  | SquareFilled     \<comment> \<open>409, Square already filled\<close>
  | IndexError
  | ValidationError

fun status_code :: "error \<Rightarrow> nat" where
  "status_code BadGameId = 400"
| "status_code GameFull = 409"
| "status_code GameNotFound = 404"
| "status_code InvalidRole = 400"
| "status_code NotAuthorized = 403"
| "status_code RoundFinished = 409"
| "status_code NotYourTurn = 409"
| "status_code InvalidIndex = 400"
| "status_code SquareFilled = 409"
| "status_code IndexError = 500"
| "status_code ValidationError = 500"

text \<open>Class \<open>Game\<close> of \<open>schemas.py\<close>, field by field.\<close>

record game =
  game_id :: string
  board :: "mark option list"
  x_starts :: bool
  x_is_next :: bool
  x_player :: "string option"
  o_player :: "string option"
  winner :: "mark option"
  draw :: bool
  score_x :: int
  score_o :: int

text \<open>Class \<open>MoveRequest\<close> of \<open>main.py\<close>. The role arrives as an arbitrary string.\<close>

record move_request =
  index :: int
  role :: string
  player_id :: string

text \<open>
  The constructor call \<open>Game(game_id=gid).model_dump()\<close>: every field but the code takes
  its default, and the constraint \<open>min_length=4, max_length=4\<close> on the code is checked.
\<close>

definition new_Game :: "string \<Rightarrow> error + game" where
  "new_Game gid =
     (if length gid = 4
      then Inr \<lparr> game_id = gid, board = replicate 9 None, x_starts = True, x_is_next = True,
                 x_player = None, o_player = None, winner = None, draw = False,
                 score_x = 0, score_o = 0 \<rparr>
      else Inl ValidationError)"

section \<open>The store\<close>

text \<open>
  Modelled from the spec: the module \<open>database\<close>, which provides the handle \<open>db\<close>, is not
  among the sources. The spec describes it as a keyed persistence layer storing one record
  per room code, with get-by-key, insert and partial field update. The collection is
  therefore a map from room codes to documents; \<open>find_one\<close> with the filter
  \<open>{"game_id": gid}\<close> is the lookup at \<open>gid\<close>, \<open>insert_one\<close> stores a document under its
  own code, and \<open>update_one\<close> with a \<open>$set\<close> rewrites fields of the document stored
  under the code, doing nothing when there is none.
\<close>

type_synonym store = "string \<rightharpoonup> game"

definition find_one :: "store \<Rightarrow> string \<Rightarrow> game option" where
  "find_one db gid = db gid"

definition insert_one :: "game \<Rightarrow> store \<Rightarrow> store" where
  "insert_one doc db = db(game_id doc \<mapsto> doc)"

definition update_one :: "string \<Rightarrow> (game \<Rightarrow> game) \<Rightarrow> store \<Rightarrow> store" where
  "update_one gid set_fields db =
     (case db gid of None \<Rightarrow> db | Some doc \<Rightarrow> db(gid \<mapsto> set_fields doc))"

section \<open>Helpers of main.py\<close>

text \<open>
  Reading \<open>xs[i]\<close> for a non-negative \<open>i\<close>: Python raises \<open>IndexError\<close> beyond the end.
\<close>

definition getitem :: "'a list \<Rightarrow> nat \<Rightarrow> error + 'a" where
  "getitem xs i = (if i < length xs then Inr (xs ! i) else Inl IndexError)"

text \<open>The eight index triples of \<open>calculate_winner\<close>, in the order of the source.\<close>

definition lines :: "(nat \<times> nat \<times> nat) list" where
  "lines = [(0, 1, 2), (3, 4, 5), (6, 7, 8),
            (0, 3, 6), (1, 4, 7), (2, 5, 8),
            (0, 4, 8), (2, 4, 6)]"

text \<open>
  The condition \<open>board[a] and board[a] == board[b] == board[c]\<close> for one triple, with
  Python's order of evaluation: \<open>board[a]\<close> first, and nothing else when it is \<open>None\<close>;
  then \<open>board[b]\<close>, and \<open>board[c]\<close> only when the first comparison holds. The result is
  the value the loop body returns for this triple, \<open>None\<close> when the condition is false.
\<close>

fun line_winner :: "mark option list \<Rightarrow> nat \<times> nat \<times> nat \<Rightarrow> error + mark option" where
  "line_winner cells (a, b, c) =
     (case getitem cells a of
        Inl e \<Rightarrow> Inl e
      | Inr None \<Rightarrow> Inr None
      | Inr (Some m) \<Rightarrow>
          (case getitem cells b of
             Inl e \<Rightarrow> Inl e
           | Inr vb \<Rightarrow>
               if Some m \<noteq> vb then Inr None
               else (case getitem cells c of
                       Inl e \<Rightarrow> Inl e
                     | Inr vc \<Rightarrow> if vb = vc then Inr (Some m) else Inr None)))"

text \<open>The \<open>for\<close> loop of \<open>calculate_winner\<close>: the first triple that wins decides.\<close>

fun winner_in :: "mark option list \<Rightarrow> (nat \<times> nat \<times> nat) list \<Rightarrow> error + mark option" where
  "winner_in cells [] = Inr None"
| "winner_in cells (l # ls) =
     (case line_winner cells l of
        Inl e \<Rightarrow> Inl e
      | Inr (Some m) \<Rightarrow> Inr (Some m)
      | Inr None \<Rightarrow> winner_in cells ls)"

definition calculate_winner :: "mark option list \<Rightarrow> error + mark option" where
  "calculate_winner cells = winner_in cells lines"

definition get_game_or_none :: "store \<Rightarrow> string \<Rightarrow> game option" where
  "get_game_or_none db gid = find_one db gid"

text \<open>
  \<open>serialize_game\<close> copies the ten fields of a document into the response, and maps a
  missing document to \<open>None\<close>. Its defaults for absent fields never apply: every document
  is written through \<open>Game(...).model_dump()\<close>, which sets all ten.
\<close>

definition serialize_game :: "game option \<Rightarrow> game option" where
  "serialize_game doc = (case doc of None \<Rightarrow> None | Some d \<Rightarrow> Some d)"

text \<open>
  Python's \<open>not v\<close> on an \<open>Optional[str]\<close>: true for \<open>None\<close> and for the empty string.
\<close>

definition falsy :: "string option \<Rightarrow> bool" where
  "falsy v = (case v of None \<Rightarrow> True | Some s \<Rightarrow> s = [])"

text \<open>
  \<open>str.isdigit\<close>: the string is not empty and each character is a digit. Strings are
  sequences of code points below 256; among those, Python counts as digits \<open>0\<close> to \<open>9\<close>
  and the superscripts U+00B2, U+00B3 and U+00B9.
\<close>

definition digit_chars :: "char list" where
  "digit_chars = ''0123456789'' @ [CHR 0xB2, CHR 0xB3, CHR 0xB9]"

definition isdigit :: "string \<Rightarrow> bool" where
  "isdigit s = (s \<noteq> [] \<and> list_all (\<lambda>c. c \<in> set digit_chars) s)"

section \<open>The operations\<close>

text \<open>
  Each operation takes the store and returns the store it leaves behind together with its
  outcome: \<open>Inl\<close> the error raised, \<open>Inr\<close> the response. The store in the result is the
  one reached by the writes executed before the operation returned or raised.
\<close>

subsection \<open>join\_game\<close>

definition join_game :: "string \<Rightarrow> string \<Rightarrow> store \<Rightarrow> store \<times> (error + string \<times> game option)" where
  "join_game gid pid db =
     (if \<not> (gid \<noteq> [] \<and> length gid = 4 \<and> isdigit gid) then (db, Inl BadGameId)
      else
        (case get_game_or_none db gid of
           None \<Rightarrow>
             (case new_Game gid of
                Inl e \<Rightarrow> (db, Inl e)
              | Inr g \<Rightarrow>
                  let new_game = g\<lparr>x_player := Some pid\<rparr>
                  in (insert_one new_game db, Inr (''X'', serialize_game (Some new_game))))
         | Some game \<Rightarrow>
             if x_player game = Some pid then (db, Inr (''X'', serialize_game (Some game)))
             else if o_player game = Some pid then (db, Inr (''O'', serialize_game (Some game)))
             else if falsy (x_player game) then
               (update_one gid (\<lambda>d. d\<lparr>x_player := Some pid\<rparr>) db,
                Inr (''X'', serialize_game (Some (game\<lparr>x_player := Some pid\<rparr>))))
             else if falsy (o_player game) then
               (update_one gid (\<lambda>d. d\<lparr>o_player := Some pid\<rparr>) db,
                Inr (''O'', serialize_game (Some (game\<lparr>o_player := Some pid\<rparr>))))
             else (db, Inl GameFull)))"

subsection \<open>get\_game\<close>

definition get_game :: "string \<Rightarrow> store \<Rightarrow> store \<times> (error + game option)" where
  "get_game gid db =
     (case get_game_or_none db gid of
        None \<Rightarrow> (db, Inl GameNotFound)
      | Some game \<Rightarrow> (db, Inr (serialize_game (Some game))))"

subsection \<open>make\_move\<close>

text \<open>
  The mark written by \<open>board[idx] = payload.role\<close>; the role has passed the check
  \<open>payload.role not in ("X", "O")\<close> by then.
\<close>

definition mark_of_role :: "string \<Rightarrow> mark" where
  "mark_of_role r = (if r = ''X'' then MarkX else MarkO)"

text \<open>
  The part of \<open>make_move\<close> below the comment \<open># Apply move\<close>: the mark is placed in the
  local copy of the board, the outcome and the scores are computed, one \<open>update_one\<close>
  writes the six fields, and the document is read back for the response.
\<close>

definition apply_move :: "string \<Rightarrow> move_request \<Rightarrow> game \<Rightarrow> store \<Rightarrow> store \<times> (error + game option)" where
  "apply_move gid payload game db =
     (let board' = (board game)[nat (index payload) := Some (mark_of_role (role payload))]
      in case calculate_winner board' of
           Inl e \<Rightarrow> (db, Inl e)
         | Inr winner' \<Rightarrow>
             let score_x' = (if winner' = Some MarkX then score_x game + 1 else score_x game);
                 score_o' = (if winner' = Some MarkO then score_o game + 1 else score_o game);
                 draw' = (winner' = None \<and> list_all (\<lambda>v. v \<noteq> None) board');
                 x_is_next' = (\<not> x_is_next game);
                 db' = update_one gid
                         (\<lambda>d. d\<lparr>board := board', x_is_next := x_is_next', winner := winner',
                                draw := draw', score_x := score_x', score_o := score_o'\<rparr>) db
             in (db', Inr (serialize_game (get_game_or_none db' gid))))"

definition make_move :: "string \<Rightarrow> move_request \<Rightarrow> store \<Rightarrow> store \<times> (error + game option)" where
  "make_move gid payload db =
     (case get_game_or_none db gid of
        None \<Rightarrow> (db, Inl GameNotFound)
      | Some game \<Rightarrow>
          if role payload \<noteq> ''X'' \<and> role payload \<noteq> ''O'' then (db, Inl InvalidRole)
          else if role payload = ''X'' \<and> x_player game \<noteq> Some (player_id payload)
            then (db, Inl NotAuthorized)
          else if role payload = ''O'' \<and> o_player game \<noteq> Some (player_id payload)
            then (db, Inl NotAuthorized)
          else if winner game \<noteq> None \<or> draw game then (db, Inl RoundFinished)
          else if (role payload = ''X'' \<and> \<not> x_is_next game) \<or>
                  (role payload = ''O'' \<and> x_is_next game)
            then (db, Inl NotYourTurn)
          else if index payload < 0 \<or> index payload > 8 then (db, Inl InvalidIndex)
          else
            (case getitem (board game) (nat (index payload)) of
               Inl e \<Rightarrow> (db, Inl e)
             | Inr (Some v) \<Rightarrow> (db, Inl SquareFilled)
             | Inr None \<Rightarrow> apply_move gid payload game db))"

subsection \<open>reset\_round and reset\_scores\<close>

definition reset_round :: "string \<Rightarrow> store \<Rightarrow> store \<times> (error + game option)" where
  "reset_round gid db =
     (case get_game_or_none db gid of
        None \<Rightarrow> (db, Inl GameNotFound)
      | Some game \<Rightarrow>
          let next_starter_is_x = (\<not> x_starts game);
              db' = update_one gid
                      (\<lambda>d. d\<lparr>board := replicate 9 None, winner := None, draw := False,
                             x_starts := next_starter_is_x, x_is_next := next_starter_is_x\<rparr>) db
          in (db', Inr (serialize_game (get_game_or_none db' gid))))"

definition reset_scores :: "string \<Rightarrow> store \<Rightarrow> store \<times> (error + game option)" where
  "reset_scores gid db =
     (case get_game_or_none db gid of
        None \<Rightarrow> (db, Inl GameNotFound)
      | Some game \<Rightarrow>
          let db' = update_one gid
                      (\<lambda>d. d\<lparr>score_x := 0, score_o := 0, board := replicate 9 None,
                             winner := None, draw := False, x_is_next := x_starts game\<rparr>) db
          in (db', Inr (serialize_game (get_game_or_none db' gid))))"

section \<open>Notions used to state the properties\<close>

text \<open>
  A line wins when its three cells are non-empty and equal; a mark holds a line when all
  three cells carry it. A triple is in range of a list when its three indices can be read.
\<close>

definition line_complete :: "mark option list \<Rightarrow> nat \<times> nat \<times> nat \<Rightarrow> bool" where
  "line_complete cells l =
     (case l of (a, b, c) \<Rightarrow> cells ! a \<noteq> None \<and> cells ! a = cells ! b \<and> cells ! b = cells ! c)"

definition line_held_by :: "mark option list \<Rightarrow> mark \<Rightarrow> nat \<times> nat \<times> nat \<Rightarrow> bool" where
  "line_held_by cells m l =
     (case l of (a, b, c) \<Rightarrow> cells ! a = Some m \<and> cells ! b = Some m \<and> cells ! c = Some m)"

definition has_winning_line :: "mark option list \<Rightarrow> bool" where
  "has_winning_line cells = list_ex (line_complete cells) lines"

definition in_range :: "'a list \<Rightarrow> nat \<times> nat \<times> nat \<Rightarrow> bool" where
  "in_range cells l =
     (case l of (a, b, c) \<Rightarrow> a < length cells \<and> b < length cells \<and> c < length cells)"

definition full :: "mark option list \<Rightarrow> bool" where
  "full cells = list_all (\<lambda>v. v \<noteq> None) cells"

text \<open>
  The document \<open>apply_move\<close> writes over \<open>g\<close> when \<open>calculate_winner\<close> has returned \<open>w\<close>.
\<close>

definition moved :: "game \<Rightarrow> move_request \<Rightarrow> mark option \<Rightarrow> game" where
  "moved g p w =
     g\<lparr>board := (board g)[nat (index p) := Some (mark_of_role (role p))],
       x_is_next := \<not> x_is_next g, winner := w,
       draw := (w = None \<and>
                list_all (\<lambda>v. v \<noteq> None) ((board g)[nat (index p) := Some (mark_of_role (role p))])),
       score_x := (if w = Some MarkX then score_x g + 1 else score_x g),
       score_o := (if w = Some MarkO then score_o g + 1 else score_o g)\<rparr>"

subsection \<open>Example states\<close>

text \<open>
  The position of the spec's win example: X holds cells 0 and 1, O holds cells 4 and 5,
  and X is to move.
\<close>

definition win_board :: "mark option list" where
  "win_board = [Some MarkX, Some MarkX, None, None, Some MarkO, Some MarkO, None, None, None]"

definition win_game :: game where
  "win_game = \<lparr> game_id = ''1234'', board = win_board, x_starts = True, x_is_next = True,
                 x_player = Some ''alice'', o_player = Some ''bob'', winner = None, draw = False,
                 score_x = 3, score_o = 1 \<rparr>"

definition win_request :: move_request where
  "win_request = \<lparr> index = 2, role = ''X'', player_id = ''alice'' \<rparr>"

text \<open>
  A position one move before a draw: eight cells are taken, no line is won, and X is to
  move into cell 8.
\<close>

definition draw_board :: "mark option list" where
  "draw_board = [Some MarkX, Some MarkO, Some MarkX,
                 Some MarkX, Some MarkO, Some MarkO,
                 Some MarkO, Some MarkX, None]"

definition draw_game :: game where
  "draw_game = \<lparr> game_id = ''1234'', board = draw_board, x_starts = True, x_is_next = True,
                  x_player = Some ''alice'', o_player = Some ''bob'', winner = None, draw = False,
                  score_x = 3, score_o = 1 \<rparr>"

definition draw_request :: move_request where
  "draw_request = \<lparr> index = 8, role = ''X'', player_id = ''alice'' \<rparr>"

text \<open>The document stored after \<open>win_request\<close> on \<open>win_game\<close>.\<close>

definition won_game :: game where
  "won_game = \<lparr> game_id = ''1234'',
                 board = [Some MarkX, Some MarkX, Some MarkX, None, Some MarkO, Some MarkO,
                          None, None, None],
                 x_starts = True, x_is_next = False,
                 x_player = Some ''alice'', o_player = Some ''bob'', winner = Some MarkX,
                 draw = False, score_x = 4, score_o = 1 \<rparr>"

text \<open>
  A request by O while X is to move, with an index beyond the board: it fails the turn
  check and the index check.
\<close>

definition early_request :: move_request where
  "early_request = \<lparr> index = 12, role = ''O'', player_id = ''bob'' \<rparr>"

subsection \<open>The validation order of the specification\<close>

text \<open>
  The checks of a move as the specification lists them: a list of pairs of an error and
  the condition under which the check fails, in the order of the list in the spec. The
  error of a request is the one of the first failing check.
\<close>

fun first_failing :: "(error \<times> bool) list \<Rightarrow> error option" where
  "first_failing [] = None"
| "first_failing ((e, fails) # checks) = (if fails then Some e else first_failing checks)"

definition bound_player :: "game \<Rightarrow> string \<Rightarrow> string option" where
  "bound_player g r = (if r = ''X'' then x_player g else if r = ''O'' then o_player g else None)"

definition move_checks :: "game option \<Rightarrow> move_request \<Rightarrow> (error \<times> bool) list" where
  "move_checks doc p =
     (case doc of
        None \<Rightarrow> [(GameNotFound, True)]
      | Some g \<Rightarrow>
          [(GameNotFound, False),
           (InvalidRole, role p \<noteq> ''X'' \<and> role p \<noteq> ''O''),
           (NotAuthorized, bound_player g (role p) \<noteq> Some (player_id p)),
           (RoundFinished, winner g \<noteq> None \<or> draw g),
           (NotYourTurn, (role p = ''X'') \<noteq> x_is_next g),
           (InvalidIndex, index p < 0 \<or> 8 < index p),
           (SquareFilled, board g ! nat (index p) \<noteq> None)])"

subsection \<open>The documents written by the resets\<close>

text \<open>
  The document \<open>reset_round\<close> writes over \<open>g\<close>, and the one \<open>reset_scores\<close> writes.
\<close>

definition round_cleared :: "game \<Rightarrow> game" where
  "round_cleared g = g\<lparr>board := replicate 9 None, winner := None, draw := False,
                        x_starts := \<not> x_starts g, x_is_next := \<not> x_starts g\<rparr>"

definition scores_cleared :: "game \<Rightarrow> game" where
  "scores_cleared g = g\<lparr>score_x := 0, score_o := 0, board := replicate 9 None,
                         winner := None, draw := False, x_is_next := x_starts g\<rparr>"

subsection \<open>Room codes, joins and reachable stores\<close>

text \<open>
  A room code of exactly four numeric characters, and the document a first join creates:
  the defaults of \<open>Game\<close> with the caller bound as X.
\<close>

definition four_digits :: "string \<Rightarrow> bool" where
  "four_digits gid = (length gid = 4 \<and> list_all (\<lambda>c. c \<in> set digit_chars) gid)"

definition seated :: "string \<Rightarrow> string \<Rightarrow> game" where
  "seated gid pid = \<lparr> game_id = gid, board = replicate 9 None, x_starts = True, x_is_next = True,
                 x_player = Some pid, o_player = None, winner = None, draw = False,
                 score_x = 0, score_o = 0 \<rparr>"

text \<open>
  The stores the five operations can produce, starting from the empty collection. Each
  request, accepted or rejected, leads from a reachable store to the store it leaves.
\<close>

inductive reachable :: "store \<Rightarrow> bool" where
  start: "reachable Map.empty"
| join: "reachable db \<Longrightarrow> reachable (fst (join_game gid pid db))"
| fetch: "reachable db \<Longrightarrow> reachable (fst (get_game gid db))"
| move: "reachable db \<Longrightarrow> reachable (fst (make_move gid p db))"
| round: "reachable db \<Longrightarrow> reachable (fst (reset_round gid db))"
| scores: "reachable db \<Longrightarrow> reachable (fst (reset_scores gid db))"

definition all_docs :: "(game \<Rightarrow> bool) \<Rightarrow> store \<Rightarrow> bool" where
  "all_docs P db = (\<forall>gid g. db gid = Some g \<longrightarrow> P g)"

definition decided_once :: "game \<Rightarrow> bool" where
  "decided_once g = (\<not> (winner g \<noteq> None \<and> draw g))"

definition nine_cells :: "game \<Rightarrow> bool" where
  "nine_cells g = (length (board g) = 9)"

subsection \<open>A played round\<close>

text \<open>
  Alice and Bob join room 1234 and play X0, O4, X1, O5, X2: X wins on the top row.
  \<open>position\<close> is a document of that room with both players seated.
\<close>

definition mv :: "int \<Rightarrow> string \<Rightarrow> string \<Rightarrow> move_request" where
  "mv i r pid = \<lparr> index = i, role = r, player_id = pid \<rparr>"

definition position :: "mark option list \<Rightarrow> bool \<Rightarrow> mark option \<Rightarrow> int \<Rightarrow> game" where
  "position cells next w sx =
     \<lparr> game_id = ''1234'', board = cells, x_starts = True, x_is_next = next,
       x_player = Some ''alice'', o_player = Some ''bob'', winner = w, draw = False,
       score_x = sx, score_o = 0 \<rparr>"

definition played_store :: store where
  "played_store =
     fst (make_move ''1234'' (mv 2 ''X'' ''alice'')
     (fst (make_move ''1234'' (mv 5 ''O'' ''bob'')
     (fst (make_move ''1234'' (mv 1 ''X'' ''alice'')
     (fst (make_move ''1234'' (mv 4 ''O'' ''bob'')
     (fst (make_move ''1234'' (mv 0 ''X'' ''alice'')
     (fst (join_game ''1234'' ''bob''
     (fst (join_game ''1234'' ''alice'' Map.empty)))))))))))))"

definition played_game :: game where
  "played_game =
     position [Some MarkX, Some MarkX, Some MarkX, None, Some MarkO, Some MarkO, None, None, None]
       False (Some MarkX) 1"

subsection \<open>Rejected requests\<close>

text \<open>
  A store whose room 1234 has both seats taken, and a move of X into the taken cell 0.
\<close>

definition full_store :: store where
  "full_store = [''1234'' \<mapsto> win_game]"

definition occupied_request :: move_request where
  "occupied_request = \<lparr> index = 0, role = ''X'', player_id = ''alice'' \<rparr>"

section \<open>Facts about the store and the helpers\<close>

lemma update_one_Some: "db gid = Some g \<Longrightarrow> update_one gid f db = db(gid \<mapsto> f g)"
  by (simp add: update_one_def)

lemma update_one_None: "db gid = None \<Longrightarrow> update_one gid f db = db"
  by (simp add: update_one_def)

text \<open>On a triple in range, \<open>line_winner\<close> raises nothing and returns the mark of a won line.\<close>

lemma line_winner_in_range:
  assumes "in_range cells l"
  shows "\<exists>w. line_winner cells l = Inr w \<and> (w \<noteq> None \<longleftrightarrow> line_complete cells l) \<and>
             (\<forall>m. w = Some m \<longrightarrow> line_held_by cells m l)"
proof -
  obtain a b c where l: "l = (a, b, c)" by (cases l) auto
  from assms l have r: "a < length cells" "b < length cells" "c < length cells"
    by (simp_all add: in_range_def)
  show ?thesis
  proof (cases "cells ! a")
    case None
    with r show ?thesis by (simp add: l getitem_def line_complete_def)
  next
    case (Some m)
    with r show ?thesis
      by (cases "cells ! b = Some m"; cases "cells ! c = Some m")
         (simp_all add: l getitem_def line_complete_def line_held_by_def)
  qed
qed

lemma winner_in_in_range:
  "list_all (in_range cells) ls \<Longrightarrow>
   \<exists>w. winner_in cells ls = Inr w \<and> (w \<noteq> None \<longleftrightarrow> list_ex (line_complete cells) ls) \<and>
       (\<forall>m. w = Some m \<longrightarrow> list_ex (line_held_by cells m) ls)"
proof (induction ls)
  case Nil
  then show ?case by simp
next
  case (Cons l ls)
  from Cons.prems have "in_range cells l" and rest: "list_all (in_range cells) ls" by simp_all
  from line_winner_in_range[OF this(1)] obtain w where
    w: "line_winner cells l = Inr w" "w \<noteq> None \<longleftrightarrow> line_complete cells l"
       "\<forall>m. w = Some m \<longrightarrow> line_held_by cells m l" by blast
  show ?case
  proof (cases w)
    case None
    with w Cons.IH[OF rest] show ?thesis by auto
  next
    case (Some m)
    with w show ?thesis by auto
  qed
qed

lemma lines_in_range: "length cells = 9 \<Longrightarrow> list_all (in_range cells) lines"
  by (simp add: lines_def in_range_def)

text \<open>
  On a board of nine cells \<open>calculate_winner\<close> returns a mark exactly when some line wins,
  and the mark it returns holds one of the eight lines.
\<close>

lemma calculate_winner_9:
  assumes "length cells = 9"
  shows "\<exists>w. calculate_winner cells = Inr w \<and> (w \<noteq> None \<longleftrightarrow> has_winning_line cells) \<and>
             (\<forall>m. w = Some m \<longrightarrow> list_ex (line_held_by cells m) lines)"
  unfolding calculate_winner_def has_winning_line_def
  by (rule winner_in_in_range[OF lines_in_range[OF assms]])

section \<open>Facts about make\_move\<close>

lemma make_move_rejected: "make_move gid p db = (db', Inl e) \<Longrightarrow> db' = db"
  by (auto simp: make_move_def apply_move_def Let_def split: option.splits if_splits sum.splits)

text \<open>
  An accepted move has passed every check, and the store it leaves differs from the old one
  in the document of the room only.
\<close>

lemma make_move_accepted:
  assumes "make_move gid p db = (db', Inr r)"
  shows "\<exists>g w. db gid = Some g \<and> (role p = ''X'' \<or> role p = ''O'') \<and>
           0 \<le> index p \<and> index p \<le> 8 \<and> nat (index p) < length (board g) \<and>
           board g ! nat (index p) = None \<and> winner g = None \<and> \<not> draw g \<and>
           calculate_winner ((board g)[nat (index p) := Some (mark_of_role (role p))]) = Inr w \<and>
           db' = db(gid \<mapsto> moved g p w) \<and> r = Some (moved g p w)"
  using assms
  by (auto simp: make_move_def apply_move_def Let_def get_game_or_none_def find_one_def
        serialize_game_def update_one_def getitem_def moved_def
      split: option.splits if_splits sum.splits)

section \<open>Outcome of a move\<close>

text \<open>
  C1. Let a move be accepted on a document whose board has nine cells. Then the document
  stored afterwards is the one returned; its board is the old board with the mark of the
  acting role at the index; its winner is set exactly when one of the eight lines has three
  non-empty equal cells; the winner, when set, holds one of the eight lines; the score of
  the winner's mark has grown by exactly one and the other score is unchanged, and without
  a winner both scores are unchanged. In particular, X placed at index 2 on the board with
  X in cells 0 and 1 and O in cells 4 and 5 gives winner X and one more point for X.
\<close>

theorem move_sets_winner_and_score:
  assumes "db gid = Some g" and "length (board g) = 9"
    and "make_move gid p db = (db', Inr r)"
  shows "\<exists>g'. db' gid = Some g' \<and> r = Some g' \<and>
           (role p = ''X'' \<and> board g' = (board g)[nat (index p) := Some MarkX] \<or>
            role p = ''O'' \<and> board g' = (board g)[nat (index p) := Some MarkO]) \<and>
           (winner g' \<noteq> None \<longleftrightarrow> has_winning_line (board g')) \<and>
           (\<forall>m. winner g' = Some m \<longrightarrow> list_ex (line_held_by (board g') m) lines) \<and>
           score_x g' = score_x g + (if winner g' = Some MarkX then 1 else 0) \<and>
           score_o g' = score_o g + (if winner g' = Some MarkO then 1 else 0) \<and>
           (board g = [Some MarkX, Some MarkX, None, None, Some MarkO, Some MarkO, None, None, None]
              \<and> index p = 2 \<and> role p = ''X'' \<longrightarrow>
            winner g' = Some MarkX \<and> score_x g' = score_x g + 1 \<and> score_o g' = score_o g)"
proof -
  let ?b = "(board g)[nat (index p) := Some (mark_of_role (role p))]"
  from make_move_accepted[OF assms(3)] assms(1) obtain w where
    acc: "role p = ''X'' \<or> role p = ''O''" "calculate_winner ?b = Inr w"
         "db' = db(gid \<mapsto> moved g p w)" "r = Some (moved g p w)"
    by auto
  from assms(2) have len: "length ?b = 9" by simp
  from calculate_winner_9[OF len] acc(2) have
    w: "w \<noteq> None \<longleftrightarrow> has_winning_line ?b" "\<forall>m. w = Some m \<longrightarrow> list_ex (line_held_by ?b m) lines"
    by auto
  have ex: "board g = [Some MarkX, Some MarkX, None, None, Some MarkO, Some MarkO, None, None, None]
              \<and> index p = 2 \<and> role p = ''X'' \<longrightarrow> w = Some MarkX"
  proof
    assume a: "board g = [Some MarkX, Some MarkX, None, None, Some MarkO, Some MarkO, None, None, None]
              \<and> index p = 2 \<and> role p = ''X''"
    then have "calculate_winner ?b = Inr (Some MarkX)"
      by (simp add: calculate_winner_def lines_def getitem_def mark_of_role_def)
    with acc(2) show "w = Some MarkX" by simp
  qed
  have "db' gid = Some (moved g p w)" using acc(3) by simp
  moreover have "role p = ''X'' \<and> board (moved g p w) = (board g)[nat (index p) := Some MarkX] \<or>
            role p = ''O'' \<and> board (moved g p w) = (board g)[nat (index p) := Some MarkO]"
    using acc(1) by (auto simp: moved_def mark_of_role_def)
  moreover have "winner (moved g p w) \<noteq> None \<longleftrightarrow> has_winning_line (board (moved g p w))"
    using w(1) by (simp add: moved_def)
  moreover have "\<forall>m. winner (moved g p w) = Some m \<longrightarrow> list_ex (line_held_by (board (moved g p w)) m) lines"
    using w(2) by (simp add: moved_def)
  moreover have "score_x (moved g p w) = score_x g + (if winner (moved g p w) = Some MarkX then 1 else 0)"
    by (simp add: moved_def)
  moreover have "score_o (moved g p w) = score_o g + (if winner (moved g p w) = Some MarkO then 1 else 0)"
    by (simp add: moved_def)
  moreover have "board g = [Some MarkX, Some MarkX, None, None, Some MarkO, Some MarkO, None, None, None]
              \<and> index p = 2 \<and> role p = ''X'' \<longrightarrow>
            winner (moved g p w) = Some MarkX \<and> score_x (moved g p w) = score_x g + 1 \<and>
            score_o (moved g p w) = score_o g"
    using ex by (simp add: moved_def)
  ultimately show ?thesis using acc(4) by blast
qed

theorem move_sets_winner_and_score_witness:
  "[''1234'' \<mapsto> win_game] ''1234'' = Some win_game \<and> length (board win_game) = 9 \<and>
   (\<exists>db' g'. make_move ''1234'' win_request [''1234'' \<mapsto> win_game] = (db', Inr (Some g')) \<and>
      db' ''1234'' = Some g' \<and>
      board g' = [Some MarkX, Some MarkX, Some MarkX, None, Some MarkO, Some MarkO, None, None, None] \<and>
      winner g' = Some MarkX \<and> score_x g' = 4 \<and> score_o g' = 1)"
proof -
  let ?db = "[''1234'' \<mapsto> win_game]"
  obtain db' r where m: "make_move ''1234'' win_request ?db = (db', r)"
    by (cases "make_move ''1234'' win_request ?db") 
  have h1: "?db ''1234'' = Some win_game" by simp
  have h2: "length (board win_game) = 9" by (simp add: win_game_def win_board_def)
  have "snd (make_move ''1234'' win_request ?db) \<noteq> Inl e" for e
    by (simp add: make_move_def apply_move_def get_game_or_none_def find_one_def win_game_def
        win_request_def win_board_def getitem_def calculate_winner_def lines_def Let_def)
  with m obtain r' where r: "r = Inr r'" by (cases r) auto
  from move_sets_winner_and_score[OF h1 h2 m[unfolded r]]
  show ?thesis using h1 h2 m r
    by (auto simp: win_game_def win_request_def win_board_def)
qed

text \<open>
  C2. Let a move be accepted on a document whose board has nine cells; before it the
  winner is unset and \<open>draw\<close> is false. Afterwards \<open>draw\<close> is true exactly when all nine
  cells are non-empty and no line wins; with a winner \<open>draw\<close> is false; with a board that
  is not full and has no winning line, winner and \<open>draw\<close> are both still unset; a full
  board without a winning line gives \<open>draw\<close> true and no winner.
\<close>

theorem move_sets_draw:
  assumes "db gid = Some g" and "length (board g) = 9"
    and "make_move gid p db = (db', Inr r)"
  shows "\<exists>g'. db' gid = Some g' \<and> r = Some g' \<and> length (board g') = 9 \<and>
           winner g = None \<and> \<not> draw g \<and>
           (draw g' \<longleftrightarrow> full (board g') \<and> \<not> has_winning_line (board g')) \<and>
           (winner g' \<noteq> None \<longrightarrow> \<not> draw g') \<and>
           (\<not> full (board g') \<and> \<not> has_winning_line (board g') \<longrightarrow> winner g' = None \<and> \<not> draw g') \<and>
           (full (board g') \<and> \<not> has_winning_line (board g') \<longrightarrow> draw g' \<and> winner g' = None)"
proof -
  let ?b = "(board g)[nat (index p) := Some (mark_of_role (role p))]"
  from make_move_accepted[OF assms(3)] assms(1) obtain w where
    acc: "winner g = None" "\<not> draw g" "calculate_winner ?b = Inr w"
         "db' = db(gid \<mapsto> moved g p w)" "r = Some (moved g p w)"
    by auto
  from assms(2) have len: "length ?b = 9" by simp
  from calculate_winner_9[OF len] acc(3) have w: "w \<noteq> None \<longleftrightarrow> has_winning_line ?b"
    by auto
  have b: "board (moved g p w) = ?b" and wn: "winner (moved g p w) = w"
    and d: "draw (moved g p w) \<longleftrightarrow> w = None \<and> full ?b"
    by (simp_all add: moved_def full_def)
  have s: "db' gid = Some (moved g p w)" using acc(4) by simp
  show ?thesis
  proof (intro exI[of _ "moved g p w"] conjI)
    show "draw (moved g p w) \<longleftrightarrow>
            full (board (moved g p w)) \<and> \<not> has_winning_line (board (moved g p w))"
      unfolding b wn d using w by auto
    show "winner (moved g p w) \<noteq> None \<longrightarrow> \<not> draw (moved g p w)"
      unfolding wn d by simp
    show "\<not> full (board (moved g p w)) \<and> \<not> has_winning_line (board (moved g p w)) \<longrightarrow>
            winner (moved g p w) = None \<and> \<not> draw (moved g p w)"
      unfolding b wn d using w by auto
    show "full (board (moved g p w)) \<and> \<not> has_winning_line (board (moved g p w)) \<longrightarrow>
            draw (moved g p w) \<and> winner (moved g p w) = None"
      unfolding b wn d using w by auto
  qed (use s acc(1,2,5) len b in simp_all)
qed

theorem move_sets_draw_witness:
  "[''1234'' \<mapsto> draw_game] ''1234'' = Some draw_game \<and> length (board draw_game) = 9 \<and>
   (\<exists>db' g'. make_move ''1234'' draw_request [''1234'' \<mapsto> draw_game] = (db', Inr (Some g')) \<and>
      db' ''1234'' = Some g' \<and> full (board g') \<and> \<not> has_winning_line (board g') \<and>
      draw g' \<and> winner g' = None)"
proof -
  let ?db = "[''1234'' \<mapsto> draw_game]"
  obtain db' r where m: "make_move ''1234'' draw_request ?db = (db', r)"
    by (cases "make_move ''1234'' draw_request ?db")
  have h1: "?db ''1234'' = Some draw_game" by simp
  have h2: "length (board draw_game) = 9" by (simp add: draw_game_def draw_board_def)
  have "snd (make_move ''1234'' draw_request ?db) \<noteq> Inl e" for e
    by (simp add: make_move_def apply_move_def get_game_or_none_def find_one_def draw_game_def
        draw_request_def draw_board_def getitem_def calculate_winner_def lines_def Let_def)
  with m obtain r' where r: "r = Inr r'" by (cases r) auto
  from move_sets_draw[OF h1 h2 m[unfolded r]] obtain g' where
    g': "db' ''1234'' = Some g'" "r' = Some g'"
        "full (board g') \<and> \<not> has_winning_line (board g') \<longrightarrow> draw g' \<and> winner g' = None"
    by blast
  from make_move_accepted[OF m[unfolded r]] g'(2) h1 obtain w where "g' = moved draw_game draw_request w"
    by auto
  then have "board g' = [Some MarkX, Some MarkO, Some MarkX,
                 Some MarkX, Some MarkO, Some MarkO,
                 Some MarkO, Some MarkX, Some MarkX]"
    by (simp add: moved_def draw_game_def draw_request_def draw_board_def mark_of_role_def)
  then have "full (board g')" "\<not> has_winning_line (board g')"
    by (simp_all add: full_def has_winning_line_def lines_def line_complete_def)
  with g' show ?thesis using h1 h2 m r by auto
qed

section \<open>Turn order\<close>

lemma win_move_eval:
  "make_move ''1234'' win_request [''1234'' \<mapsto> win_game] = ([''1234'' \<mapsto> won_game], Inr (Some won_game))"
  by (simp add: make_move_def apply_move_def get_game_or_none_def find_one_def win_game_def
        win_request_def win_board_def getitem_def calculate_winner_def lines_def Let_def
        update_one_def serialize_game_def won_game_def mark_of_role_def)

lemma early_move_eval:
  "make_move ''1234'' early_request [''1234'' \<mapsto> win_game] = ([''1234'' \<mapsto> win_game], Inl NotYourTurn)"
  by (simp add: make_move_def get_game_or_none_def find_one_def win_game_def early_request_def)

text \<open>
  C5. An accepted move stores a document whose \<open>x_is_next\<close> is the negation of the one
  before the move, whatever the outcome of the move; a rejected move leaves the store, and
  with it \<open>x_is_next\<close>, as it was.
\<close>

theorem move_flips_turn:
  "(\<forall>db' r. make_move gid p db = (db', Inr r) \<longrightarrow>
      (\<exists>g g'. db gid = Some g \<and> db' gid = Some g' \<and> r = Some g' \<and>
               x_is_next g' = (\<not> x_is_next g))) \<and>
   (\<forall>db' e. make_move gid p db = (db', Inl e) \<longrightarrow> db' = db)"
proof (intro conjI allI impI)
  fix db' r
  assume "make_move gid p db = (db', Inr r)"
  from make_move_accepted[OF this] obtain g w where
    "db gid = Some g" "db' = db(gid \<mapsto> moved g p w)" "r = Some (moved g p w)" by blast
  moreover have "x_is_next (moved g p w) = (\<not> x_is_next g)" by (simp add: moved_def)
  ultimately show "\<exists>g g'. db gid = Some g \<and> db' gid = Some g' \<and> r = Some g' \<and>
               x_is_next g' = (\<not> x_is_next g)" by simp
next
  fix db' e
  assume "make_move gid p db = (db', Inl e)"
  then show "db' = db" by (rule make_move_rejected)
qed

theorem move_flips_turn_witness:
  "make_move ''1234'' win_request [''1234'' \<mapsto> win_game] = ([''1234'' \<mapsto> won_game], Inr (Some won_game)) \<and>
   winner won_game = Some MarkX \<and> x_is_next win_game \<and> \<not> x_is_next won_game \<and>
   make_move ''1234'' early_request [''1234'' \<mapsto> win_game] = ([''1234'' \<mapsto> win_game], Inl NotYourTurn)"
proof -
  from move_flips_turn[of "''1234''" win_request "[''1234'' \<mapsto> win_game]"] win_move_eval
  have "\<exists>g g'. [''1234'' \<mapsto> win_game] ''1234'' = Some g \<and> [''1234'' \<mapsto> won_game] ''1234'' = Some g' \<and>
          Some won_game = Some g' \<and> x_is_next g' = (\<not> x_is_next g)"
    by blast
  then have "x_is_next won_game = (\<not> x_is_next win_game)" by simp
  moreover have "x_is_next win_game" by (simp add: win_game_def)
  moreover have "winner won_game = Some MarkX" by (simp add: won_game_def)
  ultimately show ?thesis using win_move_eval early_move_eval by simp
qed

section \<open>Validation of a move\<close>

lemma apply_move_9:
  assumes "length (board g) = 9"
  shows "\<exists>db' r. apply_move gid p g db = (db', Inr r)"
proof -
  have "length ((board g)[nat (index p) := Some (mark_of_role (role p))]) = 9"
    using assms by simp
  from calculate_winner_9[OF this] show ?thesis
    by (auto simp: apply_move_def Let_def)
qed

lemma make_move_None: "db gid = None \<Longrightarrow> make_move gid p db = (db, Inl GameNotFound)"
  by (simp add: make_move_def get_game_or_none_def find_one_def)

text \<open>
  C3. On a store whose document for the room has a board of nine cells, a move is rejected
  with an error exactly when that error belongs to the first failing check in the order
  of the specification: game exists, role is X or O, caller is the player bound to the
  role, round not decided, turn of the acting role, index within 0 to 8, cell empty. A
  role with no bound player is always rejected.
\<close>

theorem move_validation_order:
  assumes "\<forall>g. db gid = Some g \<longrightarrow> length (board g) = 9"
  shows "(\<forall>e. snd (make_move gid p db) = Inl e \<longleftrightarrow> first_failing (move_checks (db gid) p) = Some e) \<and>
         (\<forall>g. db gid = Some g \<and> bound_player g (role p) = None \<longrightarrow>
              (\<exists>e. snd (make_move gid p db) = Inl e))"
proof (cases "db gid")
  case None
  then show ?thesis by (auto simp: make_move_None move_checks_def)
next
  case (Some g)
  with assms have len: "length (board g) = 9" by simp
  from apply_move_9[OF len] obtain db' r where am: "apply_move gid p g db = (db', Inr r)" by blast
  have i: "0 \<le> index p \<Longrightarrow> index p \<le> 8 \<Longrightarrow> nat (index p) < length (board g)"
    using len by simp
  have 1: "snd (make_move gid p db) = Inl e \<longleftrightarrow> first_failing (move_checks (db gid) p) = Some e" for e
    using Some am i
    by (auto simp: make_move_def move_checks_def get_game_or_none_def find_one_def
          bound_player_def getitem_def split: option.splits)
  have 2: "bound_player g (role p) = None \<Longrightarrow> \<exists>e. snd (make_move gid p db) = Inl e"
    using Some
    by (auto simp: make_move_def get_game_or_none_def find_one_def bound_player_def)
  from 1 2 Some show ?thesis by auto
qed

theorem move_validation_order_witness:
  "[''1234'' \<mapsto> win_game] ''1234'' = Some win_game \<and> length (board win_game) = 9 \<and>
   first_failing (move_checks ([''1234'' \<mapsto> win_game] ''1234'') early_request) = Some NotYourTurn \<and>
   snd (make_move ''1234'' early_request [''1234'' \<mapsto> win_game]) = Inl NotYourTurn"
proof -
  have s: "[''1234'' \<mapsto> win_game] ''1234'' = Some win_game" by simp
  have l: "length (board win_game) = 9" by (simp add: win_game_def win_board_def)
  from s l have h: "\<forall>g. [''1234'' \<mapsto> win_game] ''1234'' = Some g \<longrightarrow> length (board g) = 9"
    by simp
  have f: "first_failing (move_checks ([''1234'' \<mapsto> win_game] ''1234'') early_request) = Some NotYourTurn"
    by (simp add: move_checks_def win_game_def early_request_def bound_player_def)
  from move_validation_order[where db = "[''1234'' \<mapsto> win_game]" and gid = "''1234''" and p = early_request, OF h] f
  have "snd (make_move ''1234'' early_request [''1234'' \<mapsto> win_game]) = Inl NotYourTurn" by blast
  with s l f show ?thesis by blast
qed

section \<open>The resets\<close>

lemma reset_round_None: "db gid = None \<Longrightarrow> reset_round gid db = (db, Inl GameNotFound)"
  by (simp add: reset_round_def get_game_or_none_def find_one_def)

lemma reset_round_Some:
  "db gid = Some g \<Longrightarrow>
   reset_round gid db = (db(gid \<mapsto> round_cleared g), Inr (Some (round_cleared g)))"
  by (simp add: reset_round_def get_game_or_none_def find_one_def update_one_def
        serialize_game_def Let_def round_cleared_def)

lemma reset_scores_None: "db gid = None \<Longrightarrow> reset_scores gid db = (db, Inl GameNotFound)"
  by (simp add: reset_scores_def get_game_or_none_def find_one_def)

lemma reset_scores_Some:
  "db gid = Some g \<Longrightarrow>
   reset_scores gid db = (db(gid \<mapsto> scores_cleared g), Inr (Some (scores_cleared g)))"
  by (simp add: reset_scores_def get_game_or_none_def find_one_def update_one_def
        serialize_game_def Let_def scores_cleared_def)

text \<open>
  C6. Reset Round on a room without a document fails with not-found and leaves the store
  as it was. On a room with a document it stores and returns a document whose board is
  nine empty cells, whose winner is unset and whose \<open>draw\<close> is false, whose \<open>x_starts\<close> is
  the negation of the old one and whose \<open>x_is_next\<close> equals the new \<open>x_starts\<close>; both
  scores, both players and the code are the old ones.
\<close>

theorem reset_round_effect:
  "(db gid = None \<longrightarrow> reset_round gid db = (db, Inl GameNotFound)) \<and>
   (\<forall>g. db gid = Some g \<longrightarrow>
      (\<exists>g'. reset_round gid db = (db(gid \<mapsto> g'), Inr (Some g')) \<and>
            board g' = replicate 9 None \<and> winner g' = None \<and> \<not> draw g' \<and>
            x_starts g' = (\<not> x_starts g) \<and> x_is_next g' = x_starts g' \<and>
            score_x g' = score_x g \<and> score_o g' = score_o g \<and>
            x_player g' = x_player g \<and> o_player g' = o_player g \<and>
            game_id g' = game_id g))"
proof (intro conjI allI impI)
  assume "db gid = None"
  then show "reset_round gid db = (db, Inl GameNotFound)" by (rule reset_round_None)
next
  fix g
  assume "db gid = Some g"
  then have "reset_round gid db = (db(gid \<mapsto> round_cleared g), Inr (Some (round_cleared g)))"
    by (rule reset_round_Some[of db gid g])
  then show "\<exists>g'. reset_round gid db = (db(gid \<mapsto> g'), Inr (Some g')) \<and>
            board g' = replicate 9 None \<and> winner g' = None \<and> \<not> draw g' \<and>
            x_starts g' = (\<not> x_starts g) \<and> x_is_next g' = x_starts g' \<and>
            score_x g' = score_x g \<and> score_o g' = score_o g \<and>
            x_player g' = x_player g \<and> o_player g' = o_player g \<and>
            game_id g' = game_id g"
    by (intro exI[of _ "round_cleared g"]) (simp add: round_cleared_def)
qed

theorem reset_round_effect_witness:
  "[''1234'' \<mapsto> won_game] ''1234'' = Some won_game \<and>
   (\<exists>g'. reset_round ''1234'' [''1234'' \<mapsto> won_game] = ([''1234'' \<mapsto> g'], Inr (Some g')) \<and>
         board g' = replicate 9 None \<and> winner g' = None \<and> \<not> draw g' \<and>
         x_starts won_game \<and> \<not> x_starts g' \<and> \<not> x_is_next g' \<and>
         score_x g' = 4 \<and> score_o g' = 1 \<and>
         x_player g' = Some ''alice'' \<and> o_player g' = Some ''bob'' \<and> game_id g' = ''1234'') \<and>
   Map.empty ''1234'' = (None :: game option) \<and>
   reset_round ''1234'' Map.empty = (Map.empty, Inl GameNotFound)"
proof -
  have h: "[''1234'' \<mapsto> won_game] ''1234'' = Some won_game" by simp
  have n: "Map.empty ''1234'' = (None :: game option)" by simp
  note t1 = reset_round_effect[of "[''1234'' \<mapsto> won_game]" "''1234''"]
  note t2 = reset_round_effect[of Map.empty "''1234''"]
  from t1 h obtain g' where g':
    "reset_round ''1234'' [''1234'' \<mapsto> won_game]
        = ([''1234'' \<mapsto> won_game](''1234'' \<mapsto> g'), Inr (Some g'))"
    "board g' = replicate 9 None" "winner g' = None" "\<not> draw g'"
    "x_starts g' = (\<not> x_starts won_game)" "x_is_next g' = x_starts g'"
    "score_x g' = score_x won_game" "score_o g' = score_o won_game"
    "x_player g' = x_player won_game" "o_player g' = o_player won_game"
    "game_id g' = game_id won_game"
    by auto
  have w: "x_starts won_game" "score_x won_game = 4" "score_o won_game = 1"
    "x_player won_game = Some ''alice''" "o_player won_game = Some ''bob''"
    "game_id won_game = ''1234''"
    by (simp_all add: won_game_def)
  from t2 n have e: "reset_round ''1234'' Map.empty = (Map.empty, Inl GameNotFound)" by simp
  show ?thesis
  proof (intro conjI exI[of _ g'])
    show "reset_round ''1234'' [''1234'' \<mapsto> won_game] = ([''1234'' \<mapsto> g'], Inr (Some g'))"
      using g'(1) by simp
  qed (use g' w h n e in simp_all)
qed

text \<open>
  C7. Reset Scores on a room without a document fails with not-found and leaves the store
  as it was. On a room with a document it stores and returns a document with both scores
  zero, a board of nine empty cells, winner unset, \<open>draw\<close> false and \<open>x_is_next\<close> equal to
  the old \<open>x_starts\<close>; \<open>x_starts\<close>, both players and the code are the old ones.
\<close>

theorem reset_scores_effect:
  "(db gid = None \<longrightarrow> reset_scores gid db = (db, Inl GameNotFound)) \<and>
   (\<forall>g. db gid = Some g \<longrightarrow>
      (\<exists>g'. reset_scores gid db = (db(gid \<mapsto> g'), Inr (Some g')) \<and>
            score_x g' = 0 \<and> score_o g' = 0 \<and>
            board g' = replicate 9 None \<and> winner g' = None \<and> \<not> draw g' \<and>
            x_is_next g' = x_starts g \<and> x_starts g' = x_starts g \<and>
            x_player g' = x_player g \<and> o_player g' = o_player g \<and>
            game_id g' = game_id g))"
proof (intro conjI allI impI)
  assume "db gid = None"
  then show "reset_scores gid db = (db, Inl GameNotFound)" by (rule reset_scores_None)
next
  fix g
  assume "db gid = Some g"
  then have "reset_scores gid db = (db(gid \<mapsto> scores_cleared g), Inr (Some (scores_cleared g)))"
    by (rule reset_scores_Some[of db gid g])
  then show "\<exists>g'. reset_scores gid db = (db(gid \<mapsto> g'), Inr (Some g')) \<and>
            score_x g' = 0 \<and> score_o g' = 0 \<and>
            board g' = replicate 9 None \<and> winner g' = None \<and> \<not> draw g' \<and>
            x_is_next g' = x_starts g \<and> x_starts g' = x_starts g \<and>
            x_player g' = x_player g \<and> o_player g' = o_player g \<and>
            game_id g' = game_id g"
    by (intro exI[of _ "scores_cleared g"]) (simp add: scores_cleared_def)
qed

theorem reset_scores_effect_witness:
  "[''1234'' \<mapsto> won_game] ''1234'' = Some won_game \<and>
   (\<exists>g'. reset_scores ''1234'' [''1234'' \<mapsto> won_game] = ([''1234'' \<mapsto> g'], Inr (Some g')) \<and>
         score_x g' = 0 \<and> score_o g' = 0 \<and>
         board g' = replicate 9 None \<and> winner g' = None \<and> \<not> draw g' \<and>
         \<not> x_is_next won_game \<and> x_starts won_game \<and> x_is_next g' \<and> x_starts g' \<and>
         x_player g' = Some ''alice'' \<and> o_player g' = Some ''bob'' \<and> game_id g' = ''1234'') \<and>
   Map.empty ''1234'' = (None :: game option) \<and>
   reset_scores ''1234'' Map.empty = (Map.empty, Inl GameNotFound)"
proof -
  have h: "[''1234'' \<mapsto> won_game] ''1234'' = Some won_game" by simp
  have n: "Map.empty ''1234'' = (None :: game option)" by simp
  note t1 = reset_scores_effect[of "[''1234'' \<mapsto> won_game]" "''1234''"]
  note t2 = reset_scores_effect[of Map.empty "''1234''"]
  from t1 h obtain g' where g':
    "reset_scores ''1234'' [''1234'' \<mapsto> won_game]
        = ([''1234'' \<mapsto> won_game](''1234'' \<mapsto> g'), Inr (Some g'))"
    "score_x g' = 0" "score_o g' = 0"
    "board g' = replicate 9 None" "winner g' = None" "\<not> draw g'"
    "x_is_next g' = x_starts won_game" "x_starts g' = x_starts won_game"
    "x_player g' = x_player won_game" "o_player g' = o_player won_game"
    "game_id g' = game_id won_game"
    by auto
  have w: "x_starts won_game" "\<not> x_is_next won_game"
    "x_player won_game = Some ''alice''" "o_player won_game = Some ''bob''"
    "game_id won_game = ''1234''"
    by (simp_all add: won_game_def)
  from t2 n have e: "reset_scores ''1234'' Map.empty = (Map.empty, Inl GameNotFound)" by simp
  show ?thesis
  proof (intro conjI exI[of _ g'])
    show "reset_scores ''1234'' [''1234'' \<mapsto> won_game] = ([''1234'' \<mapsto> g'], Inr (Some g'))"
      using g'(1) by simp
  qed (use g' w h n e in simp_all)
qed

section \<open>Facts about join\_game and the stores the operations leave\<close>

lemma four_digits_iff: "four_digits gid \<longleftrightarrow> gid \<noteq> [] \<and> length gid = 4 \<and> isdigit gid"
  by (auto simp: four_digits_def isdigit_def)

lemma join_game_bad_code: "\<not> four_digits gid \<Longrightarrow> join_game gid pid db = (db, Inl BadGameId)"
  by (simp add: join_game_def four_digits_iff)

lemma join_game_rejected: "join_game gid pid db = (db', Inl e) \<Longrightarrow> db' = db"
  by (auto simp: join_game_def Let_def split: option.splits if_splits sum.splits)

lemma join_game_store:
  "fst (join_game gid pid db) = db \<or>
   (db gid = None \<and> fst (join_game gid pid db) = db(gid \<mapsto> seated gid pid)) \<or>
   (\<exists>g. db gid = Some g \<and> fst (join_game gid pid db) = db(gid \<mapsto> g\<lparr>x_player := Some pid\<rparr>)) \<or>
   (\<exists>g. db gid = Some g \<and> fst (join_game gid pid db) = db(gid \<mapsto> g\<lparr>o_player := Some pid\<rparr>))"
  by (auto simp: join_game_def Let_def new_Game_def insert_one_def update_one_def seated_def
        get_game_or_none_def find_one_def split: option.splits)

lemma get_game_store: "fst (get_game gid db) = db"
  by (simp add: get_game_def split: option.splits)

lemma make_move_store:
  "fst (make_move gid p db) = db \<or>
   (\<exists>g w. db gid = Some g \<and> fst (make_move gid p db) = db(gid \<mapsto> moved g p w))"
proof (cases "make_move gid p db")
  case (Pair db' out)
  show ?thesis
  proof (cases out)
    case (Inl e)
    with Pair make_move_rejected[of gid p db db' e] show ?thesis by simp
  next
    case (Inr r)
    with Pair make_move_accepted[of gid p db db' r] show ?thesis by auto
  qed
qed

lemma reset_round_store:
  "fst (reset_round gid db) = db \<or>
   (\<exists>g. db gid = Some g \<and> fst (reset_round gid db) = db(gid \<mapsto> round_cleared g))"
  by (cases "db gid") (simp_all add: reset_round_None reset_round_Some)

lemma reset_scores_store:
  "fst (reset_scores gid db) = db \<or>
   (\<exists>g. db gid = Some g \<and> fst (reset_scores gid db) = db(gid \<mapsto> scores_cleared g))"
  by (cases "db gid") (simp_all add: reset_scores_None reset_scores_Some)

lemma all_docs_upd: "all_docs P db \<Longrightarrow> s = db(gid \<mapsto> g) \<Longrightarrow> P g \<Longrightarrow> all_docs P s"
  by (simp add: all_docs_def)

lemma all_docs_at: "all_docs P db \<Longrightarrow> db gid = Some g \<Longrightarrow> P g"
  by (auto simp: all_docs_def)

text \<open>
  A property of documents holds of every document of every reachable store when the
  document of a first join has it and each write of the operations keeps it.
\<close>

lemma reachable_all_docs:
  assumes "reachable db"
    and new: "\<And>gid pid. P (seated gid pid)"
    and x: "\<And>g pid. P g \<Longrightarrow> P (g\<lparr>x_player := Some pid\<rparr>)"
    and o: "\<And>g pid. P g \<Longrightarrow> P (g\<lparr>o_player := Some pid\<rparr>)"
    and m: "\<And>g p w. P g \<Longrightarrow> P (moved g p w)"
    and rr: "\<And>g. P g \<Longrightarrow> P (round_cleared g)"
    and rs: "\<And>g. P g \<Longrightarrow> P (scores_cleared g)"
  shows "all_docs P db"
  using assms(1)
proof (induction rule: reachable.induct)
  case start
  show ?case by (simp add: all_docs_def)
next
  case (join db gid pid)
  from join_game_store[of gid pid db] show ?case
  proof (elim disjE exE conjE)
    fix g assume g: "db gid = Some g"
      "fst (join_game gid pid db) = db(gid \<mapsto> g\<lparr>x_player := Some pid\<rparr>)"
    from x[OF all_docs_at[OF join.IH g(1)]] g(2) join.IH show ?thesis
      by (blast intro: all_docs_upd)
  next
    fix g assume g: "db gid = Some g"
      "fst (join_game gid pid db) = db(gid \<mapsto> g\<lparr>o_player := Some pid\<rparr>)"
    from o[OF all_docs_at[OF join.IH g(1)]] g(2) join.IH show ?thesis
      by (blast intro: all_docs_upd)
  next
    assume "fst (join_game gid pid db) = db(gid \<mapsto> seated gid pid)"
    with new[of gid pid] join.IH show ?thesis by (blast intro: all_docs_upd)
  qed (use join.IH in simp)
next
  case (fetch db gid)
  then show ?case by (simp add: get_game_store)
next
  case (move db gid p)
  from make_move_store[of gid p db] show ?case
  proof (elim disjE exE conjE)
    fix g w assume g: "db gid = Some g" "fst (make_move gid p db) = db(gid \<mapsto> moved g p w)"
    from m[OF all_docs_at[OF move.IH g(1)], of p w] g(2) move.IH show ?thesis
      by (blast intro: all_docs_upd)
  qed (use move.IH in simp)
next
  case (round db gid)
  from reset_round_store[of gid db] show ?case
  proof (elim disjE exE conjE)
    fix g assume g: "db gid = Some g" "fst (reset_round gid db) = db(gid \<mapsto> round_cleared g)"
    from rr[OF all_docs_at[OF round.IH g(1)]] g(2) round.IH show ?thesis
      by (blast intro: all_docs_upd)
  qed (use round.IH in simp)
next
  case (scores db gid)
  from reset_scores_store[of gid db] show ?case
  proof (elim disjE exE conjE)
    fix g assume g: "db gid = Some g" "fst (reset_scores gid db) = db(gid \<mapsto> scores_cleared g)"
    from rs[OF all_docs_at[OF scores.IH g(1)]] g(2) scores.IH show ?thesis
      by (blast intro: all_docs_upd)
  qed (use scores.IH in simp)
qed

lemma decided_once_moved: "decided_once (moved g p w)"
  by (cases w) (simp_all add: decided_once_def moved_def)

lemma reachable_decided_once: "reachable db \<Longrightarrow> all_docs decided_once db"
  by (rule reachable_all_docs)
     (simp_all add: decided_once_moved, simp_all add: decided_once_def seated_def
        round_cleared_def scores_cleared_def)

text \<open>
  Every document of a reachable store has a board of nine cells: the hypothesis on the
  board in the properties of a move holds of all stores the operations produce.
\<close>

lemma reachable_nine_cells: "reachable db \<Longrightarrow> all_docs nine_cells db"
  by (rule reachable_all_docs)
     (simp_all add: nine_cells_def seated_def moved_def round_cleared_def scores_cleared_def)

section \<open>Winner and draw\<close>

text \<open>
  C9. In every store reachable from the empty collection through join, fetch, move,
  reset-round and reset-scores requests, no document has both a winner and \<open>draw\<close> true.
\<close>

theorem winner_and_draw_exclusive:
  assumes "reachable db" and "db gid = Some g"
  shows "\<not> (winner g \<noteq> None \<and> draw g)"
  using all_docs_at[OF reachable_decided_once[OF assms(1)] assms(2)]
  by (simp add: decided_once_def)

lemmas move_eval_defs = make_move_def apply_move_def get_game_or_none_def find_one_def
  update_one_def serialize_game_def getitem_def calculate_winner_def lines_def Let_def
  mark_of_role_def mv_def position_def

lemma played_1:
  "fst (join_game ''1234'' ''alice'' Map.empty) = [''1234'' \<mapsto> seated ''1234'' ''alice'']"
  by (simp add: join_game_def new_Game_def insert_one_def get_game_or_none_def
        find_one_def isdigit_def digit_chars_def seated_def Let_def)

lemma played_2:
  "fst (join_game ''1234'' ''bob'' [''1234'' \<mapsto> seated ''1234'' ''alice''])
   = [''1234'' \<mapsto> position (replicate 9 None) True None 0]"
  by (simp add: join_game_def update_one_def get_game_or_none_def position_def
        find_one_def isdigit_def digit_chars_def seated_def falsy_def Let_def)

lemma played_3:
  "fst (make_move ''1234'' (mv 0 ''X'' ''alice'') [''1234'' \<mapsto> position (replicate 9 None) True None 0])
   = [''1234'' \<mapsto> position [Some MarkX, None, None, None, None, None, None, None, None] False None 0]"
  by (simp add: move_eval_defs numeral_eq_Suc)

lemma played_4:
  "fst (make_move ''1234'' (mv 4 ''O'' ''bob'')
     [''1234'' \<mapsto> position [Some MarkX, None, None, None, None, None, None, None, None] False None 0])
   = [''1234'' \<mapsto> position [Some MarkX, None, None, None, Some MarkO, None, None, None, None] True None 0]"
  by (simp add: move_eval_defs)

lemma played_5:
  "fst (make_move ''1234'' (mv 1 ''X'' ''alice'')
     [''1234'' \<mapsto> position [Some MarkX, None, None, None, Some MarkO, None, None, None, None] True None 0])
   = [''1234'' \<mapsto> position [Some MarkX, Some MarkX, None, None, Some MarkO, None, None, None, None] False None 0]"
  by (simp add: move_eval_defs)

lemma played_6:
  "fst (make_move ''1234'' (mv 5 ''O'' ''bob'')
     [''1234'' \<mapsto> position [Some MarkX, Some MarkX, None, None, Some MarkO, None, None, None, None] False None 0])
   = [''1234'' \<mapsto> position [Some MarkX, Some MarkX, None, None, Some MarkO, Some MarkO, None, None, None] True None 0]"
  by (simp add: move_eval_defs)

lemma played_7:
  "fst (make_move ''1234'' (mv 2 ''X'' ''alice'')
     [''1234'' \<mapsto> position [Some MarkX, Some MarkX, None, None, Some MarkO, Some MarkO, None, None, None] True None 0])
   = [''1234'' \<mapsto> played_game]"
  by (simp add: move_eval_defs played_game_def)

lemma played_store_reachable: "reachable played_store"
  unfolding played_store_def by (intro reachable.move reachable.join reachable.start)

lemma played_store_eval: "played_store ''1234'' = Some played_game"
  by (simp only: played_store_def played_1 played_2 played_3 played_4 played_5 played_6 played_7
        fun_upd_same)

theorem winner_and_draw_exclusive_witness:
  "reachable played_store \<and> played_store ''1234'' = Some played_game \<and>
   winner played_game = Some MarkX \<and> \<not> (winner played_game \<noteq> None \<and> draw played_game)"
proof -
  note r = played_store_reachable and e = played_store_eval
  from winner_and_draw_exclusive[OF r e]
  have "\<not> (winner played_game \<noteq> None \<and> draw played_game)" .
  moreover have "winner played_game = Some MarkX" by (simp add: played_game_def position_def)
  ultimately show ?thesis using r e by simp
qed

section \<open>Rejected requests\<close>

lemma get_game_None: "db gid = None \<Longrightarrow> get_game gid db = (db, Inl GameNotFound)"
  by (simp add: get_game_def get_game_or_none_def find_one_def)

lemma get_game_Some: "db gid = Some g \<Longrightarrow> get_game gid db = (db, Inr (Some g))"
  by (simp add: get_game_def get_game_or_none_def find_one_def serialize_game_def)

lemma reset_round_rejected: "reset_round gid db = (db', Inl e) \<Longrightarrow> db' = db"
  by (cases "db gid") (auto simp: reset_round_None reset_round_Some)

lemma reset_scores_rejected: "reset_scores gid db = (db', Inl e) \<Longrightarrow> db' = db"
  by (cases "db gid") (auto simp: reset_scores_None reset_scores_Some)

lemma get_game_unchanged: "get_game gid db = (db', out) \<Longrightarrow> db' = db"
  by (cases "db gid") (auto simp: get_game_None get_game_Some)

text \<open>
  C8. Whenever Join, Fetch, Move, Reset Round or Reset Scores ends with an error, the
  store it leaves is the store it was given: no write precedes a rejection.
\<close>

theorem rejected_request_keeps_store:
  "(\<forall>db' e. join_game gid pid db = (db', Inl e) \<longrightarrow> db' = db) \<and>
   (\<forall>db' e. get_game gid db = (db', Inl e) \<longrightarrow> db' = db) \<and>
   (\<forall>db' e. make_move gid p db = (db', Inl e) \<longrightarrow> db' = db) \<and>
   (\<forall>db' e. reset_round gid db = (db', Inl e) \<longrightarrow> db' = db) \<and>
   (\<forall>db' e. reset_scores gid db = (db', Inl e) \<longrightarrow> db' = db)"
  by (blast dest: join_game_rejected get_game_unchanged make_move_rejected
        reset_round_rejected reset_scores_rejected)

lemma rejected_join: "snd (join_game ''1234'' ''carol'' full_store) = Inl GameFull"
  by (simp add: join_game_def get_game_or_none_def find_one_def isdigit_def digit_chars_def
        falsy_def win_game_def full_store_def)

lemma rejected_get: "snd (get_game ''1234'' Map.empty) = Inl GameNotFound"
  by (simp add: get_game_None)

lemma rejected_occupied: "snd (make_move ''1234'' occupied_request full_store) = Inl SquareFilled"
  by (simp add: make_move_def get_game_or_none_def find_one_def getitem_def win_game_def
        win_board_def occupied_request_def full_store_def)

lemma rejected_reset_round: "snd (reset_round ''1234'' Map.empty) = Inl GameNotFound"
  by (simp add: reset_round_None)

lemma rejected_reset_scores: "snd (reset_scores ''1234'' Map.empty) = Inl GameNotFound"
  by (simp add: reset_scores_None)

lemma pair_of_snd: "snd x = b \<Longrightarrow> x = (fst x, b)"
  by (cases x) simp

theorem rejected_request_keeps_store_witness:
  "join_game ''1234'' ''carol'' full_store = (full_store, Inl GameFull) \<and>
   get_game ''1234'' Map.empty = (Map.empty, Inl GameNotFound) \<and>
   make_move ''1234'' occupied_request full_store = (full_store, Inl SquareFilled) \<and>
   reset_round ''1234'' Map.empty = (Map.empty, Inl GameNotFound) \<and>
   reset_scores ''1234'' Map.empty = (Map.empty, Inl GameNotFound)"
proof -
  note a = rejected_request_keeps_store[of "''1234''" "''carol''" full_store occupied_request]
  note b = rejected_request_keeps_store[of "''1234''" "''carol''" Map.empty occupied_request]
  have "fst (join_game ''1234'' ''carol'' full_store) = full_store"
    using a pair_of_snd[OF rejected_join] by blast
  moreover have "fst (get_game ''1234'' Map.empty) = Map.empty"
    using b pair_of_snd[OF rejected_get] by blast
  moreover have "fst (make_move ''1234'' occupied_request full_store) = full_store"
    using a pair_of_snd[OF rejected_occupied] by blast
  moreover have "fst (reset_round ''1234'' Map.empty) = Map.empty"
    using b pair_of_snd[OF rejected_reset_round] by blast
  moreover have "fst (reset_scores ''1234'' Map.empty) = Map.empty"
    using b pair_of_snd[OF rejected_reset_scores] by blast
  ultimately show ?thesis
    using pair_of_snd[OF rejected_join] pair_of_snd[OF rejected_get]
      pair_of_snd[OF rejected_occupied] pair_of_snd[OF rejected_reset_round]
      pair_of_snd[OF rejected_reset_scores]
    by simp
qed

section \<open>Validation of the room code\<close>

text \<open>The only exception the winner computation can raise is \<open>IndexError\<close>.\<close>

lemma getitem_error: "getitem xs i = Inl e \<Longrightarrow> e = IndexError"
  by (simp add: getitem_def split: if_splits)

lemma line_winner_error: "line_winner cells l = Inl e \<Longrightarrow> e = IndexError"
  by (cases l) (auto simp: getitem_def split: if_splits option.splits)

lemma winner_in_error: "winner_in cells ls = Inl e \<Longrightarrow> e = IndexError"
proof (induction ls)
  case Nil
  then show ?case by simp
next
  case (Cons l ls)
  then show ?case
    by (cases "line_winner cells l") (auto dest: line_winner_error split: option.splits)
qed

lemma apply_move_error: "snd (apply_move gid p g db) = Inl e \<Longrightarrow> e = IndexError"
  by (auto simp: apply_move_def Let_def calculate_winner_def dest: winner_in_error
      split: sum.splits)

lemma make_move_error:
  "snd (make_move gid p db) = Inl e \<Longrightarrow>
   e \<in> {GameNotFound, InvalidRole, NotAuthorized, RoundFinished, NotYourTurn, InvalidIndex,
        SquareFilled, IndexError}"
  by (auto simp: make_move_def dest: apply_move_error getitem_error
      split: option.splits sum.splits if_splits)

text \<open>
  C10. On a room code without a document, whatever its form, Fetch, Move, Reset Round and
  Reset Scores fail with not-found; none of the four ever fails with the malformed-code
  error; Join fails with the malformed-code error exactly on the codes that are not four
  numeric characters.
\<close>

theorem only_join_checks_code_format:
  "(db gid = None \<longrightarrow>
      snd (get_game gid db) = Inl GameNotFound \<and>
      snd (make_move gid p db) = Inl GameNotFound \<and>
      snd (reset_round gid db) = Inl GameNotFound \<and>
      snd (reset_scores gid db) = Inl GameNotFound) \<and>
   snd (get_game gid db) \<noteq> Inl BadGameId \<and>
   snd (make_move gid p db) \<noteq> Inl BadGameId \<and>
   snd (reset_round gid db) \<noteq> Inl BadGameId \<and>
   snd (reset_scores gid db) \<noteq> Inl BadGameId \<and>
   (snd (join_game gid pid db) = Inl BadGameId \<longleftrightarrow> \<not> four_digits gid)"
proof (intro conjI impI)
  show "snd (get_game gid db) \<noteq> Inl BadGameId"
    by (cases "db gid") (simp_all add: get_game_None get_game_Some)
  show "snd (make_move gid p db) \<noteq> Inl BadGameId"
    using make_move_error[of gid p db BadGameId] by auto
  show "snd (reset_round gid db) \<noteq> Inl BadGameId"
    by (cases "db gid") (simp_all add: reset_round_None reset_round_Some)
  show "snd (reset_scores gid db) \<noteq> Inl BadGameId"
    by (cases "db gid") (simp_all add: reset_scores_None reset_scores_Some)
  show "snd (join_game gid pid db) = Inl BadGameId \<longleftrightarrow> \<not> four_digits gid"
    by (auto simp: join_game_bad_code)
       (auto simp: join_game_def four_digits_iff new_Game_def Let_def split: option.splits if_splits)
qed (simp_all add: get_game_None make_move_None reset_round_None reset_scores_None)

theorem only_join_checks_code_format_witness:
  "Map.empty ''ab'' = (None :: game option) \<and> \<not> four_digits ''ab'' \<and>
   snd (get_game ''ab'' Map.empty) = Inl GameNotFound \<and>
   snd (make_move ''ab'' occupied_request Map.empty) = Inl GameNotFound \<and>
   snd (reset_round ''ab'' Map.empty) = Inl GameNotFound \<and>
   snd (reset_scores ''ab'' Map.empty) = Inl GameNotFound \<and>
   snd (join_game ''ab'' ''carol'' Map.empty) = Inl BadGameId"
proof -
  have n: "Map.empty ''ab'' = (None :: game option)" by simp
  have f: "\<not> four_digits ''ab''" by (simp add: four_digits_def)
  from only_join_checks_code_format[of Map.empty "''ab''" occupied_request "''carol''"] n f
  show ?thesis by blast
qed

section \<open>Join\<close>

text \<open>
  What \<open>join_game\<close> does on a well-formed code when the identifiers stored in the document
  are not the empty string: a new document with the caller as X; the same role and no
  write for a caller already seated; otherwise seat X when it is free, else seat O when it
  is free, else the capacity error.
\<close>

lemma join_game_nonempty_identifiers:
  assumes "four_digits gid"
  shows "(db gid = None \<longrightarrow>
            join_game gid pid db = (db(gid \<mapsto> seated gid pid), Inr (''X'', Some (seated gid pid)))) \<and>
         (\<forall>g. db gid = Some g \<and> x_player g = Some pid \<longrightarrow>
            join_game gid pid db = (db, Inr (''X'', Some g))) \<and>
         (\<forall>g. db gid = Some g \<and> x_player g \<noteq> Some pid \<and> o_player g = Some pid \<longrightarrow>
            join_game gid pid db = (db, Inr (''O'', Some g))) \<and>
         (\<forall>g. db gid = Some g \<and> x_player g = None \<and> o_player g \<noteq> Some pid \<longrightarrow>
            join_game gid pid db =
              (db(gid \<mapsto> g\<lparr>x_player := Some pid\<rparr>), Inr (''X'', Some (g\<lparr>x_player := Some pid\<rparr>)))) \<and>
         (\<forall>g x. db gid = Some g \<and> x_player g = Some x \<and> x \<noteq> [] \<and> x \<noteq> pid \<and>
              o_player g = None \<longrightarrow>
            join_game gid pid db =
              (db(gid \<mapsto> g\<lparr>o_player := Some pid\<rparr>), Inr (''O'', Some (g\<lparr>o_player := Some pid\<rparr>)))) \<and>
         (\<forall>g x y. db gid = Some g \<and> x_player g = Some x \<and> x \<noteq> [] \<and> x \<noteq> pid \<and>
              o_player g = Some y \<and> y \<noteq> [] \<and> y \<noteq> pid \<longrightarrow>
            join_game gid pid db = (db, Inl GameFull))"
  using assms
  by (auto simp: join_game_def four_digits_iff new_Game_def insert_one_def update_one_def
        get_game_or_none_def find_one_def serialize_game_def falsy_def seated_def Let_def)

text \<open>
  C4. A seat bound to the empty identifier is not kept. A first join of room 1234 with
  the identifier \<open>""\<close> creates the document and binds \<open>""\<close> as X. A second join by \<open>bob\<close>
  finds \<open>x_player\<close> set to \<open>""\<close>; the test \<open>not game.get("x_player")\<close> takes the empty
  string for an unset seat, so \<open>bob\<close> is bound as X over it and gets role X, where a set
  \<open>x_player\<close> and an unset \<open>o_player\<close> call for binding him as O.
\<close>

theorem join_rebinds_empty_identifier:
  "join_game ''1234'' [] Map.empty =
     ([''1234'' \<mapsto> seated ''1234'' []], Inr (''X'', Some (seated ''1234'' []))) \<and>
   x_player (seated ''1234'' []) = Some [] \<and>
   join_game ''1234'' ''bob'' [''1234'' \<mapsto> seated ''1234'' []] =
     ([''1234'' \<mapsto> seated ''1234'' ''bob''], Inr (''X'', Some (seated ''1234'' ''bob'')))"
  by (simp add: join_game_def new_Game_def insert_one_def update_one_def
        get_game_or_none_def find_one_def serialize_game_def falsy_def seated_def Let_def
        isdigit_def digit_chars_def)

end
